theory Spec2Isabelle
  imports Complex_Main
begin

section \<open>Errors raised by the Python code\<close>

text \<open>
  Every exception the modelled code can raise is a value of \<open>error\<close>; a function that
  may raise returns \<open>error + 'a\<close>, with \<open>Inl\<close> for the exception.
\<close>

datatype error =
    IndexError
  | ZeroDivisionError
  | FileExistsError
  | FileNotFoundError
  | RuntimeError
  | ValueError

section \<open>The decoder: \<open>lstm_model.py\<close>\<close>

subsection \<open>Data\<close>

text \<open>
  The layers of the model are parameters. They are taken row by row: every one of them
  treats the examples of a batch independently, so a batch tensor is the list of its
  rows. The scalar type of the logits is \<open>'v\<close>; the only thing the code needs of it is its
  order.

  \<open>encoder\<close> is \<open>resnetfc(resnet(.))\<close> on one image; \<open>embedding_weight\<close> is the table of
  \<open>word_embedder\<close>, an \<open>nn.Embedding\<close> with \<open>vocab_size\<close> rows; \<open>decoder\<close> is one step of
  the LSTM on one example, from its hidden and cell state to the hidden output and the
  next state; \<open>zero_state\<close> is the all-zero hidden and cell state; \<open>hidden2output\<close> gives
  the row of logits of one example; \<open>vocab\<close> is \<open>Vocabulary.__call__\<close>, \<open>idx2word\<close> its
  inverse table and \<open>vocab_size\<close> is \<open>len(vocab)\<close>.
\<close>

record ('i, 'e, 'h, 's, 'v) lstm_model =
  encoder :: "'i \<Rightarrow> 'e"
  embedding_weight :: "nat \<Rightarrow> 'e"
  decoder :: "'e \<Rightarrow> 's \<Rightarrow> 'h \<times> 's"
  zero_state :: 's
  hidden2output :: "'h \<Rightarrow> 'v list"
  vocab :: "string \<Rightarrow> nat"
  idx2word :: "nat \<Rightarrow> string"
  vocab_size :: nat

text \<open>
  The image features, \<open>resnetfc(resnet(images).squeeze_())\<close>. The output of the
  convolutional network has shape \<open>(N, C, 1, 1)\<close> and \<open>squeeze_\<close>, called without a
  dimension, removes every dimension of size 1: for a batch of one image the batch
  dimension goes too, and the features are a single row and no longer a batch of rows.
\<close>

datatype 'e features = Batch "'e list" | Unbatched 'e

definition image_features :: "('i, 'e, 'h, 's, 'v) lstm_model \<Rightarrow> 'i list \<Rightarrow> 'e features" where
  "image_features m images =
     (case images of
        [img] \<Rightarrow> Unbatched (encoder m img)
      | _ \<Rightarrow> Batch (map (encoder m) images))"

text \<open>
  \<open>word_embedder\<close> is called by the source on token ids (in \<open>forward\<close>, and in \<open>generate\<close>
  after pass 0) and on the image features (in \<open>generate\<close> at pass 0). An embedding table
  takes integer indices only: on the features, which are floating point numbers, it
  raises a \<open>RuntimeError\<close> whatever their shape; on an index outside the table it raises
  an \<open>IndexError\<close>.
\<close>

datatype 'e embed_arg = Features "'e features" | TokenIds "nat list"

definition word_embedder ::
  "('i, 'e, 'h, 's, 'v) lstm_model \<Rightarrow> 'e embed_arg \<Rightarrow> error + 'e list" where
  "word_embedder m arg =
     (case arg of
        Features f \<Rightarrow> Inl RuntimeError
      | TokenIds ids \<Rightarrow>
          if list_all (\<lambda>k. k < vocab_size m) ids
          then Inr (map (embedding_weight m) ids)
          else Inl IndexError)"

record ('v, 'r) torch =
  log_softmax :: "'v list \<Rightarrow> 'v list"
  softmax :: "'v list \<Rightarrow> 'v list"
  tdiv :: "'v \<Rightarrow> 'v \<Rightarrow> 'v"
  categorical :: "'v list \<Rightarrow> 'r \<Rightarrow> nat \<times> 'r"

text \<open>
  \<open>tdiv x t\<close> is the division of a logit by the temperature; \<open>categorical\<close> draws one
  index from one row of probabilities; the random source \<open>'r\<close>, global in the framework,
  is passed explicitly.
\<close>

record 'v generation_config =
  max_length :: int
  deterministic :: bool
  temperature :: 'v

record ('s, 'r) gen_state =
  captions :: "string list list"
  keep_generating :: "bool list"
  iter :: nat
  num_complete :: nat
  states :: "'s list"
  rng :: 'r

subsection \<open>Token selection\<close>

text \<open>
  \<open>max(dim=1)\<close> returns, for each row, the index of the first maximal value. The scan
  keeps the best index so far and replaces it only by a strictly greater value. The values
  are linearly ordered (no NaN); on a row without values, which a vocabulary with its four
  special words never gives, the index is 0.
\<close>

fun max_scan :: "'v::linorder list \<Rightarrow> nat \<Rightarrow> nat \<Rightarrow> 'v \<Rightarrow> nat" where
  "max_scan [] j best bv = best"
| "max_scan (x # xs) j best bv =
     (if bv < x then max_scan xs (Suc j) j x else max_scan xs (Suc j) best bv)"

definition max_index :: "'v::linorder list \<Rightarrow> nat" where
  "max_index row = (case row of [] \<Rightarrow> 0 | x # xs \<Rightarrow> max_scan xs 1 0 x)"

fun sample_rows :: "('v, 'r) torch \<Rightarrow> 'v list list \<Rightarrow> 'r \<Rightarrow> nat list \<times> 'r" where
  "sample_rows T [] r = ([], r)"
| "sample_rows T (p # ps) r =
     (let (k, r') = categorical T p r; (ks, r'') = sample_rows T ps r' in (k # ks, r''))"

definition select_indices ::
  "('v::linorder, 'r) torch \<Rightarrow> 'v generation_config \<Rightarrow> 'v list list \<Rightarrow> 'r \<Rightarrow> nat list \<times> 'r" where
  "select_indices T config output r =
     (if deterministic config
      then (map (\<lambda>row. max_index (log_softmax T row)) output, r)
      else sample_rows T
             (map (\<lambda>row. softmax T (map (\<lambda>x. tdiv T x (temperature config)) row)) output) r)"

subsection \<open>One pass of the generation loop\<close>

text \<open>
  The input of the pass: at pass 0 the image features are handed to \<open>word_embedder\<close>;
  later the ids of the words at the previous position of the buffers are (the tensor
  \<open>last_words\<close> of shape \<open>(N, 1)\<close>, one id per example).
\<close>

definition embedded_input ::
  "('i, 'e, 'h, 's, 'v) lstm_model \<Rightarrow> 'i list \<Rightarrow> string list list \<Rightarrow> nat \<Rightarrow> error + 'e list" where
  "embedded_input m images caps it =
     (if it = 0
      then word_embedder m (Features (image_features m images))
      else word_embedder m (TokenIds (map (\<lambda>ls. vocab m (ls ! (it - 1))) caps)))"

definition record_word ::
  "('i, 'e, 'h, 's, 'v) lstm_model \<Rightarrow> nat \<Rightarrow> nat list \<Rightarrow> nat \<Rightarrow>
   string list list \<times> bool list \<times> nat \<Rightarrow> string list list \<times> bool list \<times> nat" where
  "record_word m it indices i = (\<lambda>(caps, keep, nc).
     if keep ! i
     then (let word = idx2word m (indices ! i);
               caps' = caps[i := (caps ! i)[it := word]]
           in if idx2word m (indices ! i) = ''<end>''
              then (caps', keep[i := False], nc + 1)
              else (caps', keep, nc))
     else (caps, keep, nc))"

text \<open>
  The rest of the pass, from the embedded input on: the LSTM step of every example, the
  logits, the selection, the recording loop and the increment of \<open>iter\<close>.
\<close>

definition gen_pass ::
  "('i, 'e, 'h, 's, 'v::linorder) lstm_model \<Rightarrow> ('v, 'r) torch \<Rightarrow> 'v generation_config \<Rightarrow>
   'i list \<Rightarrow> 'e list \<Rightarrow> ('s, 'r) gen_state \<Rightarrow> ('s, 'r) gen_state" where
  "gen_pass m T config images embedded st =
     (let stepped = map2 (decoder m) embedded (states st);
          output = map (\<lambda>(h, s). hidden2output m h) stepped;
          (indices, r') = select_indices T config output (rng st);
          (caps', keep', nc') =
             fold (record_word m (iter st) indices) [0..<length images]
               (captions st, keep_generating st, num_complete st)
      in \<lparr>captions = caps', keep_generating = keep', iter = iter st + 1,
          num_complete = nc', states = map snd stepped, rng = r'\<rparr>)"

definition gen_step ::
  "('i, 'e, 'h, 's, 'v::linorder) lstm_model \<Rightarrow> ('v, 'r) torch \<Rightarrow> 'v generation_config \<Rightarrow>
   'i list \<Rightarrow> ('s, 'r) gen_state \<Rightarrow> error + ('s, 'r) gen_state" where
  "gen_step m T config images st =
     (case embedded_input m images (captions st) (iter st) of
        Inl e \<Rightarrow> Inl e
      | Inr embedded \<Rightarrow> Inr (gen_pass m T config images embedded st))"

function gen_loop ::
  "('i, 'e, 'h, 's, 'v::linorder) lstm_model \<Rightarrow> ('v, 'r) torch \<Rightarrow> 'v generation_config \<Rightarrow>
   'i list \<Rightarrow> ('s, 'r) gen_state \<Rightarrow> error + ('s, 'r) gen_state" where
  "gen_loop m T config images st =
     (if int (iter st) < max_length config + 1 \<and> num_complete st < length images
      then (case gen_step m T config images st of
              Inl e \<Rightarrow> Inl e
            | Inr st' \<Rightarrow> gen_loop m T config images st')
      else Inr st)"
  by pat_completeness auto
termination
  by (relation "measure (\<lambda>(m, T, config, images, st). nat (max_length config + 1) - iter st)")
     (auto simp: gen_step_def gen_pass_def Let_def split: sum.splits prod.splits)

subsection \<open>\<open>LSTMModel.generate\<close>\<close>

fun put_start :: "string list list \<Rightarrow> error + string list list" where
  "put_start [] = Inr []"
| "put_start (ls # rest) =
     (if ls = [] then Inl IndexError
      else (case put_start rest of
              Inl e \<Rightarrow> Inl e
            | Inr rest' \<Rightarrow> Inr (ls[0 := ''<start>''] # rest')))"

definition strip_flags :: "string list \<Rightarrow> string list" where
  "strip_flags ls =
     filter (\<lambda>word. word \<noteq> ''<start>'' \<and> word \<noteq> ''<end>'' \<and> word \<noteq> ''<pad>'') ls"

definition init_state ::
  "('i, 'e, 'h, 's, 'v) lstm_model \<Rightarrow> 'i list \<Rightarrow> string list list \<Rightarrow> 'r \<Rightarrow> ('s, 'r) gen_state" where
  "init_state m images caps r =
     \<lparr>captions = caps, keep_generating = replicate (length images) True, iter = 0,
      num_complete = 0, states = replicate (length images) (zero_state m), rng = r\<rparr>"

definition generate_run ::
  "('i, 'e, 'h, 's, 'v::linorder) lstm_model \<Rightarrow> ('v, 'r) torch \<Rightarrow> 'i list \<Rightarrow>
   'v generation_config \<Rightarrow> 'r \<Rightarrow> error + ('s, 'r) gen_state" where
  "generate_run m T images config r =
     (let max_len = max_length config;
          batch_size = length images
      in case put_start (replicate batch_size (replicate (nat (max_len + 1)) ''<pad>'')) of
           Inl e \<Rightarrow> Inl e
         | Inr caps \<Rightarrow> gen_loop m T config images (init_state m images caps r))"

definition generate ::
  "('i, 'e, 'h, 's, 'v::linorder) lstm_model \<Rightarrow> ('v, 'r) torch \<Rightarrow> 'i list \<Rightarrow>
   'v generation_config \<Rightarrow> 'r \<Rightarrow> error + string list list" where
  "generate m T images config r =
     (case generate_run m T images config r of
        Inl e \<Rightarrow> Inl e
      | Inr st \<Rightarrow> Inr (map strip_flags (captions st)))"

subsection \<open>What holds at every pass of the loop\<close>




subsection \<open>\<open>LSTMModel.forward\<close>\<close>

text \<open>
  The LSTM applied to a whole input sequence, from the zero state (no initial state is
  passed in \<open>forward\<close>): one \<open>decoder\<close> step per position, the state carried along, the
  hidden outputs collected.
\<close>

fun decoder_seq :: "('i, 'e, 'h, 's, 'v) lstm_model \<Rightarrow> 'e list \<Rightarrow> 's \<Rightarrow> 'h list" where
  "decoder_seq m [] s = []"
| "decoder_seq m (x # xs) s = (let (h, s') = decoder m x s in h # decoder_seq m xs s')"

text \<open>
  \<open>word_embedder(captions[:, :-1])\<close>: every row of the target without its last token is
  embedded; an id outside the table in any row raises.
\<close>

fun embed_rows ::
  "('i, 'e, 'h, 's, 'v) lstm_model \<Rightarrow> nat list list \<Rightarrow> error + 'e list list" where
  "embed_rows m [] = Inr []"
| "embed_rows m (caption # rest) =
     (case word_embedder m (TokenIds (butlast caption)) of
        Inl e \<Rightarrow> Inl e
      | Inr embedded \<Rightarrow>
         (case embed_rows m rest of
            Inl e \<Rightarrow> Inl e
          | Inr others \<Rightarrow> Inr (embedded # others)))"

text \<open>
  \<open>permute(0, 2, 1)\<close> on one example: from one row of \<open>vocab_size\<close> logits per position
  to one row of positions per vocabulary entry.
\<close>

definition permute :: "nat \<Rightarrow> 'v list list \<Rightarrow> 'v list list" where
  "permute V rows = map (\<lambda>v. map (\<lambda>row. row ! v) rows) [0..<V]"

text \<open>
  One example of the batch after \<open>torch.cat\<close>: its image features in front of its
  embedded target tokens, through the LSTM and the output layer.
\<close>

definition forward_row ::
  "('i, 'e, 'h, 's, 'v) lstm_model \<Rightarrow> 'e \<Rightarrow> 'e list \<Rightarrow> 'v list list" where
  "forward_row m feature embedded =
     (let final_hiddens = decoder_seq m (feature # embedded) (zero_state m);
          output = map (hidden2output m) final_hiddens
      in permute (vocab_size m) output)"

text \<open>
  \<open>torch.cat((features, embedded), dim=1)\<close> needs two tensors of three dimensions with
  the same batch size. The features of a batch of one image have lost their batch
  dimension, and the call raises a \<open>RuntimeError\<close>; it does so too when images and
  targets differ in number.
\<close>

definition forward ::
  "('i, 'e, 'h, 's, 'v) lstm_model \<Rightarrow> 'i list \<Rightarrow> nat list list \<Rightarrow> error + 'v list list list" where
  "forward m images caption_ids =
     (let features = image_features m images
      in case embed_rows m caption_ids of
           Inl e \<Rightarrow> Inl e
         | Inr embedded \<Rightarrow>
            (case features of
               Unbatched f \<Rightarrow> Inl RuntimeError
             | Batch fs \<Rightarrow>
                 if length fs \<noteq> length embedded then Inl RuntimeError
                 else Inr (map2 (forward_row m) fs embedded)))"

section \<open>The orchestrator: \<open>experiment.py\<close>\<close>

subsection \<open>Persistent storage\<close>

text \<open>
  What the orchestrator prints or logs: the example caption, the announcement of a test
  pass, the result of a test pass and the summary of an epoch.
\<close>

datatype printed =
    Generated_captions "string list"
  | Running_test nat
  | Test_result real real real
  | Epoch_summary nat real real

text \<open>
  The disk holds the directories that exist, the loss histories written by
  \<open>write_to_file_in_dir\<close>, the checkpoints written by \<open>torch.save\<close>, the logs written by
  \<open>log_to_file_in_dir\<close> and the plots written by \<open>savefig\<close> (a plot is the two curves it
  shows), all keyed by directory and file name.
\<close>

record ('w, 'o) disk =
  dirs :: "string list"
  loss_files :: "string \<times> string \<Rightarrow> real list option"
  ckpt_files :: "string \<times> string \<Rightarrow> ('w \<times> 'o) option"
  log_files :: "string \<times> string \<Rightarrow> printed list option"
  plot_files :: "string \<times> string \<Rightarrow> (real list \<times> real list) option"

definition path_exists :: "string \<Rightarrow> ('w, 'o) disk \<Rightarrow> bool" where
  "path_exists p d = (p \<in> set (dirs d))"

definition makedirs_exist_ok :: "string \<Rightarrow> ('w, 'o) disk \<Rightarrow> ('w, 'o) disk" where
  "makedirs_exist_ok p d = (if path_exists p d then d else d\<lparr>dirs := p # dirs d\<rparr>)"

definition makedirs :: "string \<Rightarrow> ('w, 'o) disk \<Rightarrow> error + ('w, 'o) disk" where
  "makedirs p d = (if path_exists p d then Inl FileExistsError else Inr (d\<lparr>dirs := p # dirs d\<rparr>))"

text \<open>
  Modelled from the spec: \<open>utils.file_utils.read_file_in_dir\<close>,
  \<open>write_to_file_in_dir\<close> and \<open>log_to_file_in_dir\<close> are not among the sources. The
  persisted statistics are ordered numeric lists, written after every epoch; statistics
  that cannot be read abort a resume; the log is a plain-text file that is only ever
  appended to.
\<close>

definition read_file_in_dir :: "('w, 'o) disk \<Rightarrow> string \<Rightarrow> string \<Rightarrow> error + real list" where
  "read_file_in_dir d root_dir file_name =
     (case loss_files d (root_dir, file_name) of
        None \<Rightarrow> Inl FileNotFoundError
      | Some losses \<Rightarrow> Inr losses)"

definition write_to_file_in_dir ::
  "('w, 'o) disk \<Rightarrow> string \<Rightarrow> string \<Rightarrow> real list \<Rightarrow> ('w, 'o) disk" where
  "write_to_file_in_dir d root_dir file_name losses =
     d\<lparr>loss_files := (loss_files d)((root_dir, file_name) \<mapsto> losses)\<rparr>"

definition log_to_file_in_dir ::
  "('w, 'o) disk \<Rightarrow> string \<Rightarrow> string \<Rightarrow> printed \<Rightarrow> ('w, 'o) disk" where
  "log_to_file_in_dir d root_dir file_name log_str =
     d\<lparr>log_files := (log_files d)((root_dir, file_name) \<mapsto>
          (case log_files d (root_dir, file_name) of None \<Rightarrow> [] | Some ls \<Rightarrow> ls) @ [log_str])\<rparr>"

text \<open>
  \<open>torch.load\<close> raises when the file is absent. \<open>torch.save\<close> and \<open>savefig\<close> create the
  file but not its directory: \<open>torch.save\<close> raises a \<open>RuntimeError\<close> (the parent directory
  does not exist) and \<open>savefig\<close> a \<open>FileNotFoundError\<close> when the directory is absent.
\<close>

definition torch_load :: "('w, 'o) disk \<Rightarrow> string \<Rightarrow> string \<Rightarrow> error + ('w \<times> 'o)" where
  "torch_load d root_dir file_name =
     (case ckpt_files d (root_dir, file_name) of
        None \<Rightarrow> Inl FileNotFoundError
      | Some state_dict \<Rightarrow> Inr state_dict)"

definition torch_save ::
  "('w, 'o) disk \<Rightarrow> string \<Rightarrow> string \<Rightarrow> 'w \<times> 'o \<Rightarrow> error + ('w, 'o) disk" where
  "torch_save d root_dir file_name state_dict =
     (if path_exists root_dir d
      then Inr (d\<lparr>ckpt_files := (ckpt_files d)((root_dir, file_name) \<mapsto> state_dict)\<rparr>)
      else Inl RuntimeError)"

definition savefig ::
  "('w, 'o) disk \<Rightarrow> string \<Rightarrow> string \<Rightarrow> real list \<times> real list \<Rightarrow> error + ('w, 'o) disk" where
  "savefig d root_dir file_name curves =
     (if path_exists root_dir d
      then Inr (d\<lparr>plot_files := (plot_files d)((root_dir, file_name) \<mapsto> curves)\<rparr>)
      else Inl FileNotFoundError)"

subsection \<open>Configuration, collaborators and state\<close>

record config_data =
  cfg_experiment_name :: string
  cfg_num_epochs :: int
  cfg_save :: bool
  cfg_load :: bool

text \<open>
  The collaborators of the orchestrator: the constant \<open>ROOT_STATS_DIR\<close>, the data
  loaders (a batch is its images and its captions), the model and optimizer built at
  construction, the loss of one batch under given weights
  (\<open>criterion(model(images, captions), captions).item()\<close>), the update of one batch
  (\<open>zero_grad\<close>, \<open>backward\<close>, \<open>step\<close>), the example caption printed at the start of an
  epoch and the test pass. The model of the orchestrator is the one \<open>get_model\<close> builds
  from \<open>base_model\<close>, which is not among the sources: its forward pass and its
  generation are behind these parameters, and the two that call its generation may
  raise.
\<close>

record ('i, 'w, 'o) env =
  root_stats_dir :: string
  train_loader :: "('i list \<times> nat list list) list"
  val_loader :: "('i list \<times> nat list list) list"
  get_model :: 'w
  get_optimizer :: 'o
  batch_loss :: "'w \<Rightarrow> 'i list \<Rightarrow> nat list list \<Rightarrow> real"
  optimizer_step :: "'w \<times> 'o \<Rightarrow> 'i list \<Rightarrow> nat list list \<Rightarrow> 'w \<times> 'o"
  example_caption :: "'w \<Rightarrow> 'i \<Rightarrow> error + string list"
  test :: "'w \<Rightarrow> error + real \<times> real \<times> real"

record ('i, 'w, 'o) experiment_state =
  name :: string
  experiment_dir :: string
  epochs :: int
  current_epoch :: nat
  training_losses :: "real list"
  val_losses :: "real list"
  save :: bool
  load :: bool
  model :: 'w
  optimizer :: 'o
  example_img :: "'i option"
  storage :: "('w, 'o) disk"
  console :: "printed list"

subsection \<open>Construction and resume\<close>

definition load_experiment ::
  "('i, 'w, 'o) env \<Rightarrow> ('i, 'w, 'o) experiment_state \<Rightarrow> error + ('i, 'w, 'o) experiment_state" where
  "load_experiment E s =
     (let d = makedirs_exist_ok (root_stats_dir E) (storage s)
      in if path_exists (experiment_dir s) d \<and> load s
         then (case read_file_in_dir d (experiment_dir s) ''training_losses.txt'' of
                 Inl e \<Rightarrow> Inl e
               | Inr tls \<Rightarrow>
                  (case read_file_in_dir d (experiment_dir s) ''val_losses.txt'' of
                     Inl e \<Rightarrow> Inl e
                   | Inr vls \<Rightarrow>
                      (case torch_load d (experiment_dir s) ''latest_model.pt'' of
                         Inl e \<Rightarrow> Inl e
                       | Inr (w, opt) \<Rightarrow>
                           Inr (s\<lparr>training_losses := tls, val_losses := vls,
                                  current_epoch := length tls, model := w, optimizer := opt,
                                  storage := d\<rparr>))))
         else (case makedirs (experiment_dir s) d of
                 Inl e \<Rightarrow> Inl e
               | Inr d' \<Rightarrow> Inr (s\<lparr>storage := d'\<rparr>)))"

definition init ::
  "('i, 'w, 'o) env \<Rightarrow> config_data \<Rightarrow> ('w, 'o) disk \<Rightarrow> error + ('i, 'w, 'o) experiment_state" where
  "init E config d =
     (let s = \<lparr>name = cfg_experiment_name config, experiment_dir = root_stats_dir E,
               epochs = cfg_num_epochs config, current_epoch = 0, training_losses = [],
               val_losses = [], save = cfg_save config, load = cfg_load config,
               model = get_model E, optimizer = get_optimizer E, example_img = None,
               storage = d, console = []\<rparr>
      in if load s then load_experiment E s else Inr s)"

subsection \<open>One epoch\<close>

text \<open>
  Display only calls (\<open>show_image\<close>, \<open>plt.show\<close>, the progress bar) and the switch
  between training and evaluation mode leave no trace in the state and are left out; what
  \<open>print\<close> writes is kept in \<open>console\<close>.
\<close>

text \<open>
  \<open>__log\<close>: the line is printed and, with \<open>save\<close> on, appended to \<open>all.log\<close> and to the
  named file if one is given.
\<close>

definition log_entry ::
  "('i, 'w, 'o) experiment_state \<Rightarrow> printed \<Rightarrow> string option \<Rightarrow> ('i, 'w, 'o) experiment_state" where
  "log_entry s log_str file_name =
     (let s1 = s\<lparr>console := console s @ [log_str]\<rparr>
      in if save s1
         then (let d1 = log_to_file_in_dir (storage s1) (experiment_dir s1) ''all.log'' log_str;
                   d2 = (case file_name of
                           None \<Rightarrow> d1
                         | Some f \<Rightarrow> log_to_file_in_dir d1 (experiment_dir s1) f log_str)
               in s1\<lparr>storage := d2\<rparr>)
         else s1)"

definition generate_example_caption ::
  "('i, 'w, 'o) env \<Rightarrow> ('i, 'w, 'o) experiment_state \<Rightarrow> error + ('i, 'w, 'o) experiment_state" where
  "generate_example_caption E s =
     (case example_img s of
        None \<Rightarrow> Inr s
      | Some img \<Rightarrow>
         (case example_caption E (model s) img of
            Inl e \<Rightarrow> Inl e
          | Inr words \<Rightarrow> Inr (s\<lparr>console := console s @ [Generated_captions words]\<rparr>)))"

text \<open>The body of the loop of \<open>__train\<close>, on the state and the loss summed so far.\<close>

definition train_batch ::
  "('i, 'w, 'o) env \<Rightarrow> ('i, 'w, 'o) experiment_state \<times> real \<Rightarrow> 'i list \<times> nat list list \<Rightarrow>
   error + ('i, 'w, 'o) experiment_state \<times> real" where
  "train_batch E = (\<lambda>(s, training_loss) (images, caption_ids).
     case (if example_img s = None
           then (case images of
                   [] \<Rightarrow> Inl IndexError
                 | img # _ \<Rightarrow> Inr (s\<lparr>example_img := Some img\<rparr>))
           else Inr s) of
       Inl e \<Rightarrow> Inl e
     | Inr s1 \<Rightarrow>
        (let loss = batch_loss E (model s1) images caption_ids;
             (w, opt) = optimizer_step E (model s1, optimizer s1) images caption_ids
         in Inr (s1\<lparr>model := w, optimizer := opt\<rparr>, training_loss + loss)))"

fun train_batches ::
  "('i, 'w, 'o) env \<Rightarrow> ('i, 'w, 'o) experiment_state \<times> real \<Rightarrow> ('i list \<times> nat list list) list \<Rightarrow>
   error + ('i, 'w, 'o) experiment_state \<times> real" where
  "train_batches E acc [] = Inr acc"
| "train_batches E acc (batch # rest) =
     (case train_batch E acc batch of
        Inl e \<Rightarrow> Inl e
      | Inr acc' \<Rightarrow> train_batches E acc' rest)"

definition train ::
  "('i, 'w, 'o) env \<Rightarrow> ('i, 'w, 'o) experiment_state \<Rightarrow> nat \<Rightarrow>
   error + real \<times> ('i, 'w, 'o) experiment_state" where
  "train E s epoch =
     (case train_batches E (s, 0) (train_loader E) of
        Inl e \<Rightarrow> Inl e
      | Inr (s', training_loss) \<Rightarrow>
          if length (train_loader E) = 0 then Inl ZeroDivisionError
          else Inr (training_loss / real (length (train_loader E)), s'))"

definition val :: "('i, 'w, 'o) env \<Rightarrow> ('i, 'w, 'o) experiment_state \<Rightarrow> nat \<Rightarrow> error + real" where
  "val E s epoch =
     (let val_loss = fold (\<lambda>(images, caption_ids) acc. acc + batch_loss E (model s) images caption_ids)
                       (val_loader E) 0
      in if length (val_loader E) = 0 then Inl ZeroDivisionError
         else Inr (val_loss / real (length (val_loader E))))"

definition record_stats ::
  "('i, 'w, 'o) experiment_state \<Rightarrow> real \<Rightarrow> real \<Rightarrow> ('i, 'w, 'o) experiment_state" where
  "record_stats s train_loss val_loss =
     (let s1 = s\<lparr>training_losses := training_losses s @ [train_loss],
                 val_losses := val_losses s @ [val_loss]\<rparr>
      in if save s1
         then s1\<lparr>storage :=
                  write_to_file_in_dir
                    (write_to_file_in_dir (storage s1) (experiment_dir s1)
                       ''training_losses.txt'' (training_losses s1))
                    (experiment_dir s1) ''val_losses.txt'' (val_losses s1)\<rparr>
         else s1)"

definition log_epoch_stats ::
  "('i, 'w, 'o) experiment_state \<Rightarrow> error + ('i, 'w, 'o) experiment_state" where
  "log_epoch_stats s =
     (if current_epoch s < length (training_losses s)
      then (let train_loss = training_losses s ! current_epoch s
            in if current_epoch s < length (val_losses s)
               then (let val_loss = val_losses s ! current_epoch s
                     in Inr (log_entry s (Epoch_summary (current_epoch s + 1) train_loss val_loss)
                               (Some ''epoch.log'')))
               else Inl IndexError)
      else Inl IndexError)"

definition save_model ::
  "('i, 'w, 'o) experiment_state \<Rightarrow> error + ('i, 'w, 'o) experiment_state" where
  "save_model s =
     (if save s
      then (case torch_save (storage s) (experiment_dir s) ''latest_model.pt''
                   (model s, optimizer s) of
              Inl e \<Rightarrow> Inl e
            | Inr d \<Rightarrow> Inr (s\<lparr>storage := d\<rparr>))
      else Inr s)"

text \<open>
  \<open>plot_stats\<close>: both histories are plotted against the epochs \<open>1\<close> to
  \<open>len(training_losses)\<close>, and \<open>plt.plot\<close> raises a \<open>ValueError\<close> when the validation
  history has another length; with \<open>save\<close> on the figure is written to \<open>stat_plot.png\<close>.
\<close>

definition plot_stats ::
  "('i, 'w, 'o) experiment_state \<Rightarrow> bool \<Rightarrow> error + ('i, 'w, 'o) experiment_state" where
  "plot_stats s sv =
     (let e = length (training_losses s)
      in if length (val_losses s) \<noteq> e then Inl ValueError
         else if save s \<and> sv
         then (case savefig (storage s) (experiment_dir s) ''stat_plot.png''
                      (training_losses s, val_losses s) of
                 Inl e \<Rightarrow> Inl e
               | Inr d \<Rightarrow> Inr (s\<lparr>storage := d\<rparr>))
         else Inr s)"

text \<open>The body of the loop of \<open>run\<close>.\<close>

definition test_due :: "nat \<Rightarrow> nat \<Rightarrow> bool" where
  "test_due epoch start_epoch = (epoch mod 10 = 0 \<and> epoch \<noteq> start_epoch)"

definition run_test ::
  "('i, 'w, 'o) env \<Rightarrow> ('i, 'w, 'o) experiment_state \<Rightarrow> nat \<Rightarrow> error + ('i, 'w, 'o) experiment_state" where
  "run_test E s epoch =
     (let s1 = s\<lparr>console := console s @ [Running_test epoch]\<rparr>
      in case test E (model s1) of
           Inl e \<Rightarrow> Inl e
         | Inr (test_loss, bleu1, bleu4) \<Rightarrow>
             Inr (log_entry s1 (Test_result test_loss bleu1 bleu4) None))"

definition run_epoch ::
  "('i, 'w, 'o) env \<Rightarrow> nat \<Rightarrow> ('i, 'w, 'o) experiment_state \<Rightarrow> nat \<Rightarrow>
   error + ('i, 'w, 'o) experiment_state" where
  "run_epoch E start_epoch s epoch =
     (case generate_example_caption E s of
        Inl e \<Rightarrow> Inl e
      | Inr s1 \<Rightarrow>
         (case (if test_due epoch start_epoch then run_test E s1 epoch else Inr s1) of
            Inl e \<Rightarrow> Inl e
          | Inr s2 \<Rightarrow>
             (case train E (s2\<lparr>current_epoch := epoch\<rparr>) epoch of
                Inl e \<Rightarrow> Inl e
              | Inr (train_loss, s3) \<Rightarrow>
                 (case val E s3 epoch of
                    Inl e \<Rightarrow> Inl e
                  | Inr val_loss \<Rightarrow>
                     (case log_epoch_stats (record_stats s3 train_loss val_loss) of
                        Inl e \<Rightarrow> Inl e
                      | Inr s4 \<Rightarrow>
                         (case save_model s4 of
                            Inl e \<Rightarrow> Inl e
                          | Inr s5 \<Rightarrow> plot_stats s5 True))))))"

fun run_epochs ::
  "('i, 'w, 'o) env \<Rightarrow> nat \<Rightarrow> ('i, 'w, 'o) experiment_state \<Rightarrow> nat list \<Rightarrow>
   error + ('i, 'w, 'o) experiment_state" where
  "run_epochs E start_epoch s [] = Inr s"
| "run_epochs E start_epoch s (epoch # rest) =
     (case run_epoch E start_epoch s epoch of
        Inl e \<Rightarrow> Inl e
      | Inr s' \<Rightarrow> run_epochs E start_epoch s' rest)"

definition run ::
  "('i, 'w, 'o) env \<Rightarrow> ('i, 'w, 'o) experiment_state \<Rightarrow> error + ('i, 'w, 'o) experiment_state" where
  "run E s =
     (let start_epoch = current_epoch s
      in case run_epochs E start_epoch s [start_epoch..<nat (epochs s)] of
           Inl e \<Rightarrow> Inl e
         | Inr s' \<Rightarrow> plot_stats s' True)"

section \<open>Concrete instances\<close>

text \<open>
  A small decoder over a vocabulary of six words. An image is a number and its features
  are that number; the embedding of a token is its id. The LSTM step counts the steps in
  its state and answers the word \<open>a\<close> with \<open>b\<close>, the word \<open>b\<close> with the end word and
  every other word with \<open>a\<close>; the logits are 1 at the answer and 0 elsewhere.
\<close>

definition toy_words :: "string list" where
  "toy_words = [''<pad>'', ''<start>'', ''<end>'', ''<unk>'', ''a'', ''b'']"

definition toy_vocab :: "string \<Rightarrow> nat" where
  "toy_vocab w =
     (if w = ''<pad>'' then 0 else if w = ''<start>'' then 1 else if w = ''<end>'' then 2
      else if w = ''a'' then 4 else if w = ''b'' then 5 else 3)"

definition toy_decoder :: "nat \<Rightarrow> nat \<Rightarrow> nat \<times> nat" where
  "toy_decoder e cnt = (if e = 4 then 5 else if e = 5 then 2 else 4, Suc cnt)"

definition toy_model :: "(nat, nat, nat, nat, nat) lstm_model" where
  "toy_model =
     \<lparr>encoder = (\<lambda>img. img),
      embedding_weight = (\<lambda>k. k),
      decoder = toy_decoder,
      zero_state = 0,
      hidden2output = (\<lambda>h. map (\<lambda>j. if j = h then 1 else 0) [0..<6]),
      vocab = toy_vocab,
      idx2word = (\<lambda>k. toy_words ! k),
      vocab_size = 6\<rparr>"

definition toy_torch :: "(nat, nat) torch" where
  "toy_torch =
     \<lparr>log_softmax = (\<lambda>row. row), softmax = (\<lambda>row. row), tdiv = (\<lambda>x t. x div t),
      categorical = (\<lambda>p r. (r mod length p, Suc r))\<rparr>"

definition toy_config :: "int \<Rightarrow> nat generation_config" where
  "toy_config M = \<lparr>max_length = M, deterministic = True, temperature = 1\<rparr>"

text \<open>
  Two states of the loop for a batch of two images and \<open>max_length = 3\<close>: the state in
  which \<open>generate\<close> enters the loop, and a state in which pass 1 is due, with the word \<open>b\<close>
  in the first buffer and the word \<open>a\<close> in the second.
\<close>

definition toy_images :: "nat list" where
  "toy_images = [0, 2]"

definition toy_start :: "(nat, nat) gen_state" where
  "toy_start =
     init_state toy_model toy_images
       (replicate (length toy_images) ((replicate 4 ''<pad>'')[0 := ''<start>''])) 0"


text \<open>
  An orchestrator whose weights count the optimizer steps taken, with one training batch
  and one validation batch per epoch and a loss of 1 on every batch.
\<close>

definition toy_env :: "(nat, nat, nat) env" where
  "toy_env =
     \<lparr>root_stats_dir = ''stats'',
      train_loader = [([7], [[1, 4, 2]])],
      val_loader = [([8], [[1, 5, 2]])],
      get_model = 0,
      get_optimizer = 0,
      batch_loss = (\<lambda>w images caption_ids. 1),
      optimizer_step = (\<lambda>(w, opt) images caption_ids. (Suc w, Suc opt)),
      example_caption = (\<lambda>w img. Inr [''a'']),
      test = (\<lambda>w. Inr (0, 0, 0))\<rparr>"

definition empty_disk :: "(nat, nat) disk" where
  "empty_disk =
     \<lparr>dirs = [], loss_files = (\<lambda>k. None), ckpt_files = (\<lambda>k. None),
      log_files = (\<lambda>k. None), plot_files = (\<lambda>k. None)\<rparr>"

definition toy_cfg :: "int \<Rightarrow> bool \<Rightarrow> bool \<Rightarrow> config_data" where
  "toy_cfg n sv ld =
     \<lparr>cfg_experiment_name = ''toy'', cfg_num_epochs = n, cfg_save = sv, cfg_load = ld\<rparr>"

text \<open>The orchestrator built from \<open>toy_cfg n sv False\<close> on the empty disk.\<close>

definition toy_experiment :: "int \<Rightarrow> bool \<Rightarrow> (nat, nat, nat) experiment_state" where
  "toy_experiment n sv =
     \<lparr>name = ''toy'', experiment_dir = ''stats'', epochs = n, current_epoch = 0,
      training_losses = [], val_losses = [], save = sv, load = False, model = 0,
      optimizer = 0, example_img = None, storage = empty_disk, console = []\<rparr>"

text \<open>The state in which \<open>run\<close> leaves that orchestrator.\<close>

definition toy_run :: "int \<Rightarrow> bool \<Rightarrow> (nat, nat, nat) experiment_state" where
  "toy_run n sv =
     (case run toy_env (toy_experiment n sv) of
        Inl e \<Rightarrow> toy_experiment n sv
      | Inr s \<Rightarrow> s)"

text \<open>
  The same with \<open>save\<close> on, on a disk where the statistics directory exists and is empty,
  and the state in which \<open>run\<close> leaves it.
\<close>

definition stats_disk :: "(nat, nat) disk" where
  "stats_disk = empty_disk\<lparr>dirs := [''stats'']\<rparr>"

definition saving_experiment :: "int \<Rightarrow> (nat, nat, nat) experiment_state" where
  "saving_experiment n = (toy_experiment n True)\<lparr>storage := stats_disk\<rparr>"

definition saving_run :: "int \<Rightarrow> (nat, nat, nat) experiment_state" where
  "saving_run n =
     (case run toy_env (saving_experiment n) of
        Inl e \<Rightarrow> saving_experiment n
      | Inr s \<Rightarrow> s)"

section \<open>Properties of the generation loop\<close>

subsection \<open>The input of a pass\<close>

lemma word_embedder_features: "word_embedder m (Features f) = Inl RuntimeError"
  by (simp add: word_embedder_def)



lemma embedded_input_first: "embedded_input m images caps 0 = Inl RuntimeError"
  by (simp add: embedded_input_def word_embedder_features)



lemma gen_step_first:
  "iter st = 0 \<Longrightarrow> gen_step m T config images st = Inl RuntimeError"
  by (simp add: gen_step_def embedded_input_first)


subsection \<open>The whole loop\<close>

declare gen_loop.simps [simp del]

lemma gen_loop_continue:
  "int (iter st) < max_length config + 1 \<Longrightarrow> num_complete st < length images \<Longrightarrow>
   gen_loop m T config images st =
     (case gen_step m T config images st of
        Inl e \<Rightarrow> Inl e
      | Inr st' \<Rightarrow> gen_loop m T config images st')"
  by (subst gen_loop.simps) auto

lemma gen_loop_stop:
  "\<not> (int (iter st) < max_length config + 1 \<and> num_complete st < length images) \<Longrightarrow>
   gen_loop m T config images st = Inr st"
  by (subst gen_loop.simps) auto

lemma gen_loop_first:
  assumes "iter st = 0" "0 \<le> max_length config" "num_complete st < length images"
  shows "gen_loop m T config images st = Inl RuntimeError"
proof -
  have "int (iter st) < max_length config + 1" using assms(1,2) by simp
  then show ?thesis
    using assms(1,3) by (simp add: gen_loop_continue gen_step_first)
qed

lemma put_start_ok:
  "\<forall>ls\<in>set xs. ls \<noteq> [] \<Longrightarrow> put_start xs = Inr (map (\<lambda>ls. ls[0 := ''<start>'']) xs)"
  by (induction xs) simp_all

lemma put_start_replicate:
  "0 < L \<Longrightarrow> put_start (replicate B (replicate L ''<pad>'')) =
     Inr (replicate B ((replicate L ''<pad>'')[0 := ''<start>'']))"
  by (subst put_start_ok) (auto simp: map_replicate)

lemma put_start_empty_rows:
  "0 < B \<Longrightarrow> put_start (replicate B []) = Inl IndexError"
  by (cases B) simp_all

subsection \<open>The result of \<open>generate\<close>\<close>

lemma generate_empty_batch: "generate m T [] config r = Inr []"
  by (simp add: generate_def generate_run_def gen_loop_stop init_state_def)

lemma generate_negative_length:
  "max_length config < 0 \<Longrightarrow> images \<noteq> [] \<Longrightarrow> generate m T images config r = Inl IndexError"
  by (simp add: generate_def generate_run_def put_start_empty_rows)

lemma generate_run_first_pass:
  assumes "images \<noteq> []" "0 \<le> max_length config"
  shows "generate_run m T images config r = Inl RuntimeError"
proof -
  let ?caps = "replicate (length images)
                 ((replicate (nat (max_length config + 1)) ''<pad>'')[0 := ''<start>''])"
  have "gen_loop m T config images (init_state m images ?caps r) = Inl RuntimeError"
    using assms by (intro gen_loop_first) (simp_all add: init_state_def)
  then show ?thesis
    using assms(2) by (simp add: generate_run_def Let_def put_start_replicate)
qed

lemma generate_first_pass:
  assumes "images \<noteq> []" "0 \<le> max_length config"
  shows "generate m T images config r = Inl RuntimeError"
  by (simp add: generate_def generate_run_first_pass [OF assms])

lemma strip_flags_no_flags:
  "''<start>'' \<notin> set (strip_flags ls) \<and> ''<end>'' \<notin> set (strip_flags ls) \<and>
   ''<pad>'' \<notin> set (strip_flags ls)"
  by (simp add: strip_flags_def)

lemma length_strip_flags: "length (strip_flags ls) \<le> length ls"
  by (simp add: strip_flags_def)

subsection \<open>One pass\<close>










subsection \<open>The first pass\<close>

text \<open>
  C10. \<open>generate\<close> returns captions for the empty batch only. For a batch of at least one
  image and a positive \<open>max_length\<close> the loop is entered, its pass 0 hands the image
  features to the embedding table, and the call ends there with a \<open>RuntimeError\<close>: after
  no recurrent step, and without a list of captions.
\<close>

theorem generate_raises_at_first_pass:
  assumes "0 < max_length config"
  shows "generate m T images config r = (if images = [] then Inr [] else Inl RuntimeError) \<and>
         (images \<noteq> [] \<longrightarrow>
            (\<exists>caps. generate_run m T images config r =
                      gen_loop m T config images (init_state m images caps r) \<and>
                    gen_step m T config images (init_state m images caps r) = Inl RuntimeError))"
proof -
  let ?caps = "replicate (length images)
                 ((replicate (nat (max_length config + 1)) ''<pad>'')[0 := ''<start>''])"
  have run: "generate_run m T images config r =
             gen_loop m T config images (init_state m images ?caps r)"
    using assms by (simp add: generate_run_def Let_def put_start_replicate)
  have step: "gen_step m T config images (init_state m images ?caps r) = Inl RuntimeError"
    by (rule gen_step_first) (simp add: init_state_def)
  have res: "generate m T images config r = (if images = [] then Inr [] else Inl RuntimeError)"
    using assms by (simp add: generate_empty_batch generate_first_pass)
  from run step res show ?thesis by blast
qed

theorem generate_raises_at_first_pass_witness:
  "0 < max_length (toy_config 3) \<and>
   generate toy_model toy_torch [0, 2] (toy_config 3) (0::nat) = Inl RuntimeError"
proof -
  have h: "0 < max_length (toy_config 3)" by (simp add: toy_config_def)
  show ?thesis
    using h generate_raises_at_first_pass [OF h, where m = toy_model and T = toy_torch
        and images = "[0, 2]" and r = "0::nat"]
    by simp
qed

text \<open>
  C1. On one image with \<open>max_length = 1\<close>, \<open>generate\<close> returns no list of captions: it
  raises in pass 0.
\<close>

theorem generate_returns_no_caption:
  "generate toy_model toy_torch [5] (toy_config 1) (0::nat) = Inl RuntimeError \<and>
   max_length (toy_config 1) = 1"
  by (simp add: generate_first_pass toy_config_def)

text \<open>
  C2. At pass 0 the image features are not the input of the recurrent update: they are
  handed to \<open>word_embedder\<close>, which raises, and the pass ends before the update. This
  holds for every model, batch and buffer; \<open>forward\<close>, in contrast, puts the features in
  front of the embedded tokens without embedding them.
\<close>

theorem first_pass_embeds_the_features:
  "embedded_input m images caps 0 = Inl RuntimeError \<and>
   gen_step m T config images (init_state m images caps r) = Inl RuntimeError"
  by (simp add: embedded_input_first gen_step_first init_state_def)

subsection \<open>Deterministic selection\<close>











subsection \<open>Stopped examples\<close>









section \<open>Properties of teacher-forced scoring\<close>




lemma embed_rows_length:
  "embed_rows m caption_ids = Inr embedded \<Longrightarrow> length embedded = length caption_ids"
  by (induction caption_ids arbitrary: embedded) (auto split: sum.splits)


lemma forward_single_image:
  "forward m [img] caption_ids =
     (case embed_rows m caption_ids of Inl e \<Rightarrow> Inl e | Inr embedded \<Rightarrow> Inl RuntimeError)"
  by (simp add: forward_def image_features_def split: sum.splits)





section \<open>Properties of the orchestrator\<close>

subsection \<open>Construction and resume\<close>

lemma init_toy: "init toy_env (toy_cfg n sv False) empty_disk = Inr (toy_experiment n sv)"
  by (simp add: init_def toy_cfg_def toy_env_def toy_experiment_def)

lemma init_saving: "init toy_env (toy_cfg n True False) stats_disk = Inr (saving_experiment n)"
  by (simp add: init_def toy_cfg_def toy_env_def toy_experiment_def saving_experiment_def)

lemma init_without_load:
  assumes "\<not> cfg_load config"
  shows "\<exists>s. init E config d = Inr s \<and> storage s = d \<and> current_epoch s = 0 \<and>
             training_losses s = [] \<and> val_losses s = [] \<and>
             model s = get_model E \<and> optimizer s = get_optimizer E"
  using assms by (simp add: init_def)

lemma exists_after_makedirs: "path_exists p (makedirs_exist_ok p d)"
  by (simp add: makedirs_exist_ok_def path_exists_def)

lemma loss_files_makedirs [simp]:
  "loss_files (makedirs_exist_ok p d) = loss_files d"
  "ckpt_files (makedirs_exist_ok p d) = ckpt_files d"
  by (simp_all add: makedirs_exist_ok_def path_exists_def)

lemma init_resume:
  assumes "cfg_load config"
    and "loss_files d (root_stats_dir E, ''training_losses.txt'') = Some tls"
    and "loss_files d (root_stats_dir E, ''val_losses.txt'') = Some vls"
    and "ckpt_files d (root_stats_dir E, ''latest_model.pt'') = Some (w, opt)"
  shows "\<exists>s. init E config d = Inr s \<and> training_losses s = tls \<and> val_losses s = vls \<and>
             current_epoch s = length tls \<and> model s = w \<and> optimizer s = opt"
  using assms
  by (simp add: init_def load_experiment_def Let_def exists_after_makedirs
        read_file_in_dir_def torch_load_def)

lemma init_resume_without_checkpoint:
  assumes "cfg_load config"
    and "ckpt_files d (root_stats_dir E, ''latest_model.pt'') = None"
  shows "\<exists>e. init E config d = Inl e"
  using assms
  by (simp add: init_def load_experiment_def Let_def exists_after_makedirs
        read_file_in_dir_def torch_load_def split: option.splits)

lemma load_experiment_never_creates:
  assumes "experiment_dir s = root_stats_dir E" and "\<not> load s"
  shows "load_experiment E s = Inl FileExistsError"
  using assms
  by (simp add: load_experiment_def Let_def exists_after_makedirs makedirs_def)

text \<open>
  C5. Built with \<open>load\<close> off on a disk without directories, the orchestrator starts fresh
  and the disk still has no directory: \<open>__load_experiment\<close>, the only place where one is
  made, is not called. Called all the same, its branch for this case raises, because the
  directory it wants to make is the one it has just made.
\<close>

theorem fresh_start_creates_no_directory:
  "init toy_env (toy_cfg 1 True False) empty_disk = Inr (toy_experiment 1 True) \<and>
   current_epoch (toy_experiment 1 True) = 0 \<and> training_losses (toy_experiment 1 True) = [] \<and>
   dirs (storage (toy_experiment 1 True)) = [] \<and>
   load_experiment toy_env (toy_experiment 1 True) = Inl FileExistsError"
proof -
  have "load_experiment toy_env (toy_experiment 1 True) = Inl FileExistsError"
    by (rule load_experiment_never_creates) (simp_all add: toy_experiment_def toy_env_def)
  then show ?thesis
    by (simp add: init_toy) (simp add: toy_experiment_def empty_disk_def)
qed

subsection \<open>Training\<close>

text \<open>
  C8, as the code has it. No batch is skipped. Whatever its size, a batch has its loss
  added to the running sum and its optimizer step taken, and the loop goes on with the
  batches that follow. Only an empty batch met while no example image is stored ends the
  epoch, with an index error.
\<close>

theorem train_processes_every_batch:
  "(example_img s \<noteq> None \<or> images \<noteq> [] \<longrightarrow>
      (\<exists>s1. train_batch E (s, training_loss) (images, caption_ids) =
              Inr (s1, training_loss + batch_loss E (model s) images caption_ids) \<and>
            (model s1, optimizer s1) =
              optimizer_step E (model s, optimizer s) images caption_ids \<and>
            train_batches E (s, training_loss) ((images, caption_ids) # rest) =
              train_batches E (s1, training_loss + batch_loss E (model s) images caption_ids) rest)) \<and>
   (example_img s = None \<and> images = [] \<longrightarrow>
      train_batch E (s, training_loss) (images, caption_ids) = Inl IndexError)"
  by (cases images; cases "optimizer_step E (model s, optimizer s) images caption_ids")
     (auto simp: train_batch_def Let_def)

theorem train_processes_every_batch_witness:
  "example_img ((toy_experiment 1 True)\<lparr>example_img := Some 3\<rparr>) \<noteq> None \<and>
   (\<exists>s1. train_batch toy_env ((toy_experiment 1 True)\<lparr>example_img := Some 3\<rparr>, 0) ([], []) =
           Inr (s1, 0 + batch_loss toy_env (model ((toy_experiment 1 True)\<lparr>example_img := Some 3\<rparr>)) [] []))"
proof -
  have h: "example_img ((toy_experiment 1 True)\<lparr>example_img := Some 3\<rparr>) \<noteq> None" by simp
  show ?thesis
    using h train_processes_every_batch [where s = "(toy_experiment 1 True)\<lparr>example_img := Some 3\<rparr>"
        and images = "[]" and E = toy_env and training_loss = 0 and caption_ids = "[]"]
    by blast
qed

text \<open>
  C8 as stated fails. An empty batch, met when an example image is stored, adds its loss
  (1 here) to the sum and moves the weights (which count the optimizer steps) from 0 to 1.
  Met when none is stored, it raises an index error.
\<close>

theorem empty_batch_is_not_skipped:
  "train_batch toy_env ((toy_experiment 1 True)\<lparr>example_img := Some 3\<rparr>, 0) ([], []) =
     Inr ((toy_experiment 1 True)\<lparr>example_img := Some 3, model := 1, optimizer := 1\<rparr>, 1) \<and>
   model ((toy_experiment 1 True)\<lparr>example_img := Some 3\<rparr>) = 0 \<and>
   train_batch toy_env (toy_experiment 1 True, 0) ([], []) = Inl IndexError"
  by (simp add: train_batch_def toy_experiment_def toy_env_def)

subsection \<open>What one epoch changes\<close>

lemma log_entry_fields:
  "training_losses (log_entry s x f) = training_losses s"
  "val_losses (log_entry s x f) = val_losses s"
  "current_epoch (log_entry s x f) = current_epoch s"
  "save (log_entry s x f) = save s"
  "experiment_dir (log_entry s x f) = experiment_dir s"
  "epochs (log_entry s x f) = epochs s"
  "model (log_entry s x f) = model s"
  "optimizer (log_entry s x f) = optimizer s"
  "console (log_entry s x f) = console s @ [x]"
  "loss_files (storage (log_entry s x f)) = loss_files (storage s)"
  "dirs (storage (log_entry s x f)) = dirs (storage s)"
  "\<not> save s \<Longrightarrow> storage (log_entry s x f) = storage s"
  by (simp_all add: log_entry_def Let_def log_to_file_in_dir_def split: option.splits)

lemma generate_example_caption_frame:
  assumes "generate_example_caption E s = Inr s1"
  shows "\<exists>out. s1 = s\<lparr>console := console s @ out\<rparr> \<and> (\<forall>e. Running_test e \<notin> set out)"
  using assms
  by (auto simp: generate_example_caption_def split: option.splits sum.splits
        intro: exI [of _ "[]"])

lemma run_test_frame:
  assumes "run_test E s epoch = Inr s1"
  shows "\<exists>a b c. s1 = log_entry (s\<lparr>console := console s @ [Running_test epoch]\<rparr>)
                         (Test_result a b c) None"
  using assms by (auto simp: run_test_def Let_def split: sum.splits)

lemma train_batch_frame:
  assumes "train_batch E (s, a) batch = Inr (s', a')"
  shows "s' = s\<lparr>model := model s', optimizer := optimizer s', example_img := example_img s'\<rparr>"
  using assms
  by (cases batch) (auto simp: train_batch_def Let_def split: if_splits list.splits prod.splits)

lemma train_batches_frame:
  "train_batches E (s, a) batches = Inr (s', a') \<Longrightarrow>
   s' = s\<lparr>model := model s', optimizer := optimizer s', example_img := example_img s'\<rparr>"
proof (induction batches arbitrary: s a)
  case Nil
  then show ?case by simp
next
  case (Cons batch rest)
  from Cons.prems obtain s1 a1 where
    one: "train_batch E (s, a) batch = Inr (s1, a1)" and
    others: "train_batches E (s1, a1) rest = Inr (s', a')"
    by (auto split: sum.splits)
  from train_batch_frame [OF one]
  have f1: "s1 = s\<lparr>model := model s1, optimizer := optimizer s1, example_img := example_img s1\<rparr>" .
  from Cons.IH [OF others]
  have f2: "s' = s1\<lparr>model := model s', optimizer := optimizer s', example_img := example_img s'\<rparr>" .
  show ?case by (subst f2, subst f1) simp
qed

lemma train_frame:
  assumes "train E s epoch = Inr (loss, s')"
  shows "s' = s\<lparr>model := model s', optimizer := optimizer s', example_img := example_img s'\<rparr>"
  using assms
  by (auto simp: train_def split: sum.splits prod.splits if_splits dest: train_batches_frame)

lemma record_stats_fields:
  "training_losses (record_stats s a b) = training_losses s @ [a]"
  "val_losses (record_stats s a b) = val_losses s @ [b]"
  "current_epoch (record_stats s a b) = current_epoch s"
  "save (record_stats s a b) = save s"
  "experiment_dir (record_stats s a b) = experiment_dir s"
  "epochs (record_stats s a b) = epochs s"
  "console (record_stats s a b) = console s"
  "save s \<Longrightarrow> loss_files (storage (record_stats s a b)) (experiment_dir s, ''training_losses.txt'')
             = Some (training_losses s @ [a])"
  "save s \<Longrightarrow> loss_files (storage (record_stats s a b)) (experiment_dir s, ''val_losses.txt'')
             = Some (val_losses s @ [b])"
  "\<not> save s \<Longrightarrow> storage (record_stats s a b) = storage s"
  by (simp_all add: record_stats_def Let_def write_to_file_in_dir_def)

lemma log_epoch_stats_frame:
  assumes "log_epoch_stats s = Inr s'"
  shows "\<exists>a b. s' = log_entry s (Epoch_summary (current_epoch s + 1) a b) (Some ''epoch.log'')"
  using assms by (auto simp: log_epoch_stats_def Let_def split: if_splits)

lemma save_model_fields:
  assumes "save_model s = Inr s'"
  shows "training_losses s' = training_losses s"
    "val_losses s' = val_losses s"
    "current_epoch s' = current_epoch s"
    "save s' = save s"
    "experiment_dir s' = experiment_dir s"
    "epochs s' = epochs s"
    "console s' = console s"
    "loss_files (storage s') = loss_files (storage s)"
    "\<not> save s \<Longrightarrow> storage s' = storage s"
  using assms
  by (auto simp: save_model_def torch_save_def split: if_splits sum.splits)

lemma plot_stats_fields:
  assumes "plot_stats s sv = Inr s'"
  shows "training_losses s' = training_losses s"
    "val_losses s' = val_losses s"
    "current_epoch s' = current_epoch s"
    "save s' = save s"
    "experiment_dir s' = experiment_dir s"
    "epochs s' = epochs s"
    "console s' = console s"
    "loss_files (storage s') = loss_files (storage s)"
    "\<not> save s \<Longrightarrow> storage s' = storage s"
    "length (val_losses s) = length (training_losses s)"
  using assms
  by (auto simp: plot_stats_def Let_def savefig_def split: if_splits sum.splits)

lemma run_epoch_result:
  assumes "run_epoch E start s epoch = Inr s'"
  shows "\<exists>out a b.
     training_losses s' = training_losses s @ [a] \<and> val_losses s' = val_losses s @ [b] \<and>
     current_epoch s' = epoch \<and> save s' = save s \<and> experiment_dir s' = experiment_dir s \<and>
     epochs s' = epochs s \<and>
     console s' = console s @ out \<and>
     (\<forall>e. Running_test e \<in> set out \<longleftrightarrow> e = epoch \<and> test_due epoch start) \<and>
     (save s \<longrightarrow>
        loss_files (storage s') (experiment_dir s, ''training_losses.txt'') =
          Some (training_losses s') \<and>
        loss_files (storage s') (experiment_dir s, ''val_losses.txt'') = Some (val_losses s')) \<and>
     (\<not> save s \<longrightarrow> storage s' = storage s)"
proof -
  from assms obtain s1 s2 a s3 b s4 s5 where
    g: "generate_example_caption E s = Inr s1" and
    t: "(if test_due epoch start then run_test E s1 epoch else Inr s1) = Inr s2" and
    tr: "train E (s2\<lparr>current_epoch := epoch\<rparr>) epoch = Inr (a, s3)" and
    v: "val E s3 epoch = Inr b" and
    l: "log_epoch_stats (record_stats s3 a b) = Inr s4" and
    sv: "save_model s4 = Inr s5" and
    pl: "plot_stats s5 True = Inr s'"
    by (auto simp: run_epoch_def split: sum.splits prod.splits)
  from generate_example_caption_frame [OF g] obtain out1 where
    s1: "s1 = s\<lparr>console := console s @ out1\<rparr>" and o1: "\<forall>e. Running_test e \<notin> set out1"
    by blast
  have "\<exists>out2. console s2 = console s1 @ out2 \<and>
      (\<forall>e. Running_test e \<in> set out2 \<longleftrightarrow> e = epoch \<and> test_due epoch start) \<and>
      training_losses s2 = training_losses s1 \<and> val_losses s2 = val_losses s1 \<and>
      save s2 = save s1 \<and> experiment_dir s2 = experiment_dir s1 \<and> epochs s2 = epochs s1 \<and>
      loss_files (storage s2) = loss_files (storage s1) \<and>
      (\<not> save s1 \<longrightarrow> storage s2 = storage s1)"
  proof (cases "test_due epoch start")
    case True
    with t have "run_test E s1 epoch = Inr s2" by simp
    from run_test_frame [OF this] obtain x y z where
      "s2 = log_entry (s1\<lparr>console := console s1 @ [Running_test epoch]\<rparr>)
              (Test_result x y z) None" by blast
    then show ?thesis
      using True
      by (intro exI [of _ "[Running_test epoch, Test_result x y z]"])
         (auto simp: log_entry_fields)
  next
    case False
    with t have "s2 = s1" by simp
    then show ?thesis using False by (intro exI [of _ "[]"]) simp
  qed
  then obtain out2 where
    c2: "console s2 = console s1 @ out2" and
    o2: "\<forall>e. Running_test e \<in> set out2 \<longleftrightarrow> e = epoch \<and> test_due epoch start" and
    f2: "training_losses s2 = training_losses s1" "val_losses s2 = val_losses s1"
      "save s2 = save s1" "experiment_dir s2 = experiment_dir s1" "epochs s2 = epochs s1"
      "loss_files (storage s2) = loss_files (storage s1)" and
    d2: "\<not> save s1 \<longrightarrow> storage s2 = storage s1"
    by blast
  from train_frame [OF tr] have
    s3: "s3 = (s2\<lparr>current_epoch := epoch\<rparr>)\<lparr>model := model s3, optimizer := optimizer s3,
              example_img := example_img s3\<rparr>" .
  from log_epoch_stats_frame [OF l] obtain x y where
    s4: "s4 = log_entry (record_stats s3 a b)
               (Epoch_summary (current_epoch (record_stats s3 a b) + 1) x y) (Some ''epoch.log'')"
    by blast
  have f3: "training_losses s3 = training_losses s" "val_losses s3 = val_losses s"
    "current_epoch s3 = epoch" "save s3 = save s" "experiment_dir s3 = experiment_dir s"
    "epochs s3 = epochs s" "console s3 = console s @ out1 @ out2"
    "storage s3 = storage s2"
    by (subst s3, simp add: c2 f2 s1)+
  let ?out = "out1 @ out2 @ [Epoch_summary (epoch + 1) x y]"
  have f4: "training_losses s4 = training_losses s @ [a]" "val_losses s4 = val_losses s @ [b]"
    "current_epoch s4 = epoch" "save s4 = save s" "experiment_dir s4 = experiment_dir s"
    "epochs s4 = epochs s" "console s4 = console s @ ?out"
    by (subst s4, simp add: log_entry_fields record_stats_fields f3)+
  have l4: "loss_files (storage s4) = loss_files (storage (record_stats s3 a b))"
    by (subst s4) (simp add: log_entry_fields)
  have disk4: "save s \<longrightarrow>
        loss_files (storage s4) (experiment_dir s, ''training_losses.txt'') =
          Some (training_losses s @ [a]) \<and>
        loss_files (storage s4) (experiment_dir s, ''val_losses.txt'') = Some (val_losses s @ [b])"
    using record_stats_fields(8,9) [of s3 a b] f3 unfolding l4 by simp
  have nodisk4: "\<not> save s \<longrightarrow> storage s4 = storage s"
  proof
    assume ns: "\<not> save s"
    then have "storage s2 = storage s" using d2 s1 by simp
    moreover have "storage (record_stats s3 a b) = storage s3"
      using record_stats_fields(10) [of s3 a b] f3 ns by simp
    moreover have "storage s4 = storage (record_stats s3 a b)"
      using ns f3 by (subst s4) (simp add: log_entry_fields record_stats_fields)
    ultimately show "storage s4 = storage s" using f3 by simp
  qed
  note F5 = save_model_fields [OF sv]
  note F6 = plot_stats_fields [OF pl]
  have f6: "training_losses s' = training_losses s @ [a]" "val_losses s' = val_losses s @ [b]"
    "current_epoch s' = epoch" "save s' = save s" "experiment_dir s' = experiment_dir s"
    "epochs s' = epochs s" "console s' = console s @ ?out"
    using F5(1-7) F6(1-7) f4 by simp_all
  have l6: "loss_files (storage s') = loss_files (storage s4)" using F5(8) F6(8) by simp
  have nodisk: "\<not> save s \<longrightarrow> storage s' = storage s"
    using nodisk4 F5(9) F6(9) F5(4) f4(4) by simp
  have outs: "\<forall>e. Running_test e \<in> set ?out \<longleftrightarrow> e = epoch \<and> test_due epoch start"
    using o1 o2 by simp
  show ?thesis
    using f6 disk4 nodisk outs unfolding l6
    by (intro exI [of _ ?out] exI [of _ a] exI [of _ b]) simp
qed

subsection \<open>The epochs of a run\<close>

lemma run_epochs_append:
  "run_epochs E start s (xs @ ys) =
     (case run_epochs E start s xs of
        Inl e \<Rightarrow> Inl e
      | Inr s1 \<Rightarrow> run_epochs E start s1 ys)"
  by (induction xs arbitrary: s) (simp_all split: sum.splits)

lemma run_epochs_result:
  "run_epochs E start s es = Inr s' \<Longrightarrow>
   \<exists>out.
     length (training_losses s') = length (training_losses s) + length es \<and>
     length (val_losses s') = length (val_losses s) + length es \<and>
     take (length (training_losses s)) (training_losses s') = training_losses s \<and>
     take (length (val_losses s)) (val_losses s') = val_losses s \<and>
     (es \<noteq> [] \<longrightarrow> current_epoch s' = last es) \<and>
     save s' = save s \<and> experiment_dir s' = experiment_dir s \<and> epochs s' = epochs s \<and>
     console s' = console s @ out \<and>
     (\<forall>e. Running_test e \<in> set out \<longleftrightarrow> e \<in> set es \<and> test_due e start) \<and>
     (save s \<and> es \<noteq> [] \<longrightarrow>
        loss_files (storage s') (experiment_dir s, ''training_losses.txt'') =
          Some (training_losses s') \<and>
        loss_files (storage s') (experiment_dir s, ''val_losses.txt'') = Some (val_losses s'))"
proof (induction es arbitrary: s)
  case Nil
  then show ?case by simp
next
  case (Cons epoch rest)
  from Cons.prems obtain s1 where
    one: "run_epoch E start s epoch = Inr s1" and
    others: "run_epochs E start s1 rest = Inr s'"
    by (auto split: sum.splits)
  from run_epoch_result [OF one] obtain out1 a b where
    r1: "training_losses s1 = training_losses s @ [a]" "val_losses s1 = val_losses s @ [b]"
      "current_epoch s1 = epoch" "save s1 = save s" "experiment_dir s1 = experiment_dir s"
      "epochs s1 = epochs s" "console s1 = console s @ out1" and
    o1: "\<forall>e. Running_test e \<in> set out1 \<longleftrightarrow> e = epoch \<and> test_due epoch start" and
    d1: "save s \<longrightarrow>
        loss_files (storage s1) (experiment_dir s, ''training_losses.txt'') =
          Some (training_losses s1) \<and>
        loss_files (storage s1) (experiment_dir s, ''val_losses.txt'') = Some (val_losses s1)"
    by blast
  from Cons.IH [OF others] obtain out2 where
    r2: "length (training_losses s') = length (training_losses s1) + length rest"
      "length (val_losses s') = length (val_losses s1) + length rest"
      "take (length (training_losses s1)) (training_losses s') = training_losses s1"
      "take (length (val_losses s1)) (val_losses s') = val_losses s1"
      "rest \<noteq> [] \<longrightarrow> current_epoch s' = last rest"
      "save s' = save s1" "experiment_dir s' = experiment_dir s1" "epochs s' = epochs s1"
      "console s' = console s1 @ out2" and
    o2: "\<forall>e. Running_test e \<in> set out2 \<longleftrightarrow> e \<in> set rest \<and> test_due e start" and
    d2: "save s1 \<and> rest \<noteq> [] \<longrightarrow>
        loss_files (storage s') (experiment_dir s1, ''training_losses.txt'') =
          Some (training_losses s') \<and>
        loss_files (storage s') (experiment_dir s1, ''val_losses.txt'') = Some (val_losses s')"
    by blast
  have t1: "take (length (training_losses s)) (training_losses s') = training_losses s"
  proof -
    have "take (length (training_losses s)) (training_losses s') =
          take (length (training_losses s)) (take (length (training_losses s1)) (training_losses s'))"
      by (simp add: r1 min_def)
    also have "\<dots> = take (length (training_losses s)) (training_losses s1)"
      by (simp only: r2(3))
    also have "\<dots> = training_losses s" by (simp add: r1)
    finally show ?thesis .
  qed
  have t2: "take (length (val_losses s)) (val_losses s') = val_losses s"
  proof -
    have "take (length (val_losses s)) (val_losses s') =
          take (length (val_losses s)) (take (length (val_losses s1)) (val_losses s'))"
      by (simp add: r1 min_def)
    also have "\<dots> = take (length (val_losses s)) (val_losses s1)"
      by (simp only: r2(4))
    also have "\<dots> = val_losses s" by (simp add: r1)
    finally show ?thesis .
  qed
  have cur: "current_epoch s' = last (epoch # rest)"
  proof (cases rest)
    case Nil
    with others have "s' = s1" by simp
    then show ?thesis using r1 Nil by simp
  next
    case (Cons x xs)
    then show ?thesis using r2 by simp
  qed
  have disk: "save s \<longrightarrow>
        loss_files (storage s') (experiment_dir s, ''training_losses.txt'') =
          Some (training_losses s') \<and>
        loss_files (storage s') (experiment_dir s, ''val_losses.txt'') = Some (val_losses s')"
  proof (cases rest)
    case Nil
    with others have "s' = s1" by simp
    then show ?thesis using d1 by simp
  next
    case (Cons x xs)
    then show ?thesis using d2 r1 by simp
  qed
  have outs: "\<forall>e. Running_test e \<in> set (out1 @ out2) \<longleftrightarrow>
      e \<in> set (epoch # rest) \<and> test_due e start"
    using o1 o2 by auto
  show ?case
    using r1 r2 t1 t2 cur disk outs
    by (intro exI [of _ "out1 @ out2"]) simp
qed

lemma run_returned:
  assumes "run E s = Inr s_end"
  shows "\<exists>s_last. run_epochs E (current_epoch s) s [current_epoch s..<nat (epochs s)] = Inr s_last \<and>
           plot_stats s_last True = Inr s_end"
  using assms by (auto simp: run_def Let_def split: sum.splits)

lemma toy_run_returned:
  "\<not> isl (run toy_env (toy_experiment n sv)) \<Longrightarrow>
   run toy_env (toy_experiment n sv) = Inr (toy_run n sv)"
  by (cases "run toy_env (toy_experiment n sv)") (simp_all add: toy_run_def)

lemma saving_run_returned:
  "\<not> isl (run toy_env (saving_experiment n)) \<Longrightarrow>
   run toy_env (saving_experiment n) = Inr (saving_run n)"
  by (cases "run toy_env (saving_experiment n)") (simp_all add: saving_run_def)

text \<open>
  With \<open>save\<close> on and no statistics directory on the disk, the first epoch of a run is
  trained and validated and then ends at \<open>torch.save\<close>.
\<close>

lemma run_without_directory:
  "run toy_env (toy_experiment 1 True) = Inl RuntimeError"
proof -
  have "(case run toy_env (toy_experiment 1 True) of
           Inl e \<Rightarrow> e = RuntimeError
         | Inr s \<Rightarrow> False)"
    by code_simp
  then show ?thesis by (simp split: sum.splits)
qed

text \<open>
  C7, as the code has it. Take a run that returns, started in a state whose histories
  have one entry per completed epoch and whose counter is that number (a fresh state, or
  one resumed from consistent files). After each of its epochs, when \<open>k\<close> epochs are
  complete in all, both histories have \<open>k\<close> entries, the entries the run started with
  unchanged, and with \<open>save\<close> on the two files hold the two histories. The counter is
  then \<open>k - 1\<close>, the index of the epoch just run, not \<open>k\<close>.
\<close>

theorem histories_follow_completed_epochs:
  assumes "run E s = Inr s_end"
    and "current_epoch s = length (training_losses s)"
    and "length (val_losses s) = length (training_losses s)"
    and "current_epoch s < k" and "k \<le> nat (epochs s)"
  shows "\<exists>s' s_last. run_epochs E (current_epoch s) s [current_epoch s..<k] = Inr s' \<and>
      run_epochs E (current_epoch s) s' [k..<nat (epochs s)] = Inr s_last \<and>
      plot_stats s_last True = Inr s_end \<and>
      length (training_losses s') = k \<and> length (val_losses s') = k \<and>
      current_epoch s' = k - 1 \<and>
      take (current_epoch s) (training_losses s') = training_losses s \<and>
      take (current_epoch s) (val_losses s') = val_losses s \<and>
      (save s \<longrightarrow>
         loss_files (storage s') (experiment_dir s', ''training_losses.txt'') =
           Some (training_losses s') \<and>
         loss_files (storage s') (experiment_dir s', ''val_losses.txt'') =
           Some (val_losses s'))"
proof -
  let ?c = "current_epoch s"
  have split: "[?c..<nat (epochs s)] = [?c..<k] @ [k..<nat (epochs s)]"
    using assms(4,5) upt_add_eq_append [of ?c k "nat (epochs s) - k"] by simp
  from run_returned [OF assms(1)] obtain s_last where
    all: "run_epochs E ?c s [?c..<nat (epochs s)] = Inr s_last" and
    plot: "plot_stats s_last True = Inr s_end"
    by blast
  from all have "run_epochs E ?c s ([?c..<k] @ [k..<nat (epochs s)]) = Inr s_last"
    by (simp add: split [symmetric])
  then obtain s' where
    first: "run_epochs E ?c s [?c..<k] = Inr s'" and
    rest: "run_epochs E ?c s' [k..<nat (epochs s)] = Inr s_last"
    by (auto simp: run_epochs_append split: sum.splits)
  have ne: "[?c..<k] \<noteq> []" and lst: "last [?c..<k] = k - 1" and len: "length [?c..<k] = k - ?c"
    using assms(4) by simp_all
  from run_epochs_result [OF first] ne lst len have
    "length (training_losses s') = length (training_losses s) + (k - ?c)"
    "length (val_losses s') = length (val_losses s) + (k - ?c)"
    "take (length (training_losses s)) (training_losses s') = training_losses s"
    "take (length (val_losses s)) (val_losses s') = val_losses s"
    "current_epoch s' = k - 1"
    "experiment_dir s' = experiment_dir s"
    "save s \<longrightarrow>
        loss_files (storage s') (experiment_dir s, ''training_losses.txt'') =
          Some (training_losses s') \<and>
        loss_files (storage s') (experiment_dir s, ''val_losses.txt'') = Some (val_losses s')"
    by auto
  then show ?thesis
    using first rest plot assms(2,3,4) by (intro exI [of _ s'] exI [of _ s_last]) simp
qed

theorem histories_follow_completed_epochs_witness:
  "init toy_env (toy_cfg 3 True False) stats_disk = Inr (saving_experiment 3) \<and>
   run toy_env (saving_experiment 3) = Inr (saving_run 3) \<and>
   current_epoch (saving_experiment 3) = length (training_losses (saving_experiment 3)) \<and>
   length (val_losses (saving_experiment 3)) = length (training_losses (saving_experiment 3)) \<and>
   current_epoch (saving_experiment 3) < 2 \<and> 2 \<le> nat (epochs (saving_experiment 3)) \<and>
   save (saving_experiment 3) \<and>
   (\<exists>s'. run_epochs toy_env (current_epoch (saving_experiment 3)) (saving_experiment 3)
            [current_epoch (saving_experiment 3)..<2] = Inr s' \<and>
         length (training_losses s') = 2 \<and> length (val_losses s') = 2 \<and>
         current_epoch s' = 2 - 1 \<and>
         loss_files (storage s') (experiment_dir s', ''training_losses.txt'') =
           Some (training_losses s'))"
proof -
  have "\<not> isl (run toy_env (saving_experiment 3))" by code_simp
  then have h1: "run toy_env (saving_experiment 3) = Inr (saving_run 3)"
    by (rule saving_run_returned)
  have h2: "current_epoch (saving_experiment 3) = length (training_losses (saving_experiment 3))"
    and h3: "length (val_losses (saving_experiment 3)) =
             length (training_losses (saving_experiment 3))"
    and h4: "current_epoch (saving_experiment 3) < 2"
    and h5: "2 \<le> nat (epochs (saving_experiment 3))"
    and h6: "save (saving_experiment 3)"
    by (simp_all add: saving_experiment_def toy_experiment_def)
  show ?thesis
    using histories_follow_completed_epochs [OF h1 h2 h3 h4 h5] h1 h2 h3 h4 h5 h6
      init_saving [of 3]
    by blast
qed

text \<open>
  C7 as stated fails. Take the orchestrator built with \<open>save\<close> on, on a disk where the
  statistics directory exists. After its run of one epoch, one training epoch is complete
  (the weights have taken its one optimizer step), both histories have one entry and so
  has the file of the training losses, but the counter is 0.
\<close>

theorem current_epoch_is_one_behind:
  "init toy_env (toy_cfg 1 True False) stats_disk = Inr (saving_experiment 1) \<and>
   run toy_env (saving_experiment 1) = Inr (saving_run 1) \<and>
   model (saving_run 1) = 1 \<and> length (training_losses (saving_run 1)) = 1 \<and>
   length (val_losses (saving_run 1)) = 1 \<and>
   loss_files (storage (saving_run 1)) (''stats'', ''training_losses.txt'') = Some [1] \<and>
   current_epoch (saving_run 1) = 0"
proof -
  have "\<not> isl (run toy_env (saving_experiment 1))" by code_simp
  then have "run toy_env (saving_experiment 1) = Inr (saving_run 1)"
    by (rule saving_run_returned)
  moreover have "model (saving_run 1) = 1 \<and> length (training_losses (saving_run 1)) = 1 \<and>
   length (val_losses (saving_run 1)) = 1 \<and>
   loss_files (storage (saving_run 1)) (''stats'', ''training_losses.txt'') = Some [1] \<and>
   current_epoch (saving_run 1) = 0"
    by code_simp
  ultimately show ?thesis by (simp add: init_saving)
qed

text \<open>
  C9, as the code has it. In a run that returns, the test pass is made at the epochs of
  the run that are multiples of 10, the epoch the run starts from left out; 10 is a
  constant of \<open>run\<close>.
\<close>

theorem test_pass_at_multiples_of_ten:
  assumes "run E s = Inr s'"
  shows "\<exists>out. console s' = console s @ out \<and>
     (\<forall>e. Running_test e \<in> set out \<longleftrightarrow>
        current_epoch s \<le> e \<and> e < nat (epochs s) \<and> e mod 10 = 0 \<and> e \<noteq> current_epoch s)"
proof -
  from run_returned [OF assms] obtain s_last where
    all: "run_epochs E (current_epoch s) s [current_epoch s..<nat (epochs s)] = Inr s_last" and
    plot: "plot_stats s_last True = Inr s'"
    by blast
  from run_epochs_result [OF all] obtain out where
    "console s_last = console s @ out" and
    "\<forall>e. Running_test e \<in> set out \<longleftrightarrow>
        e \<in> set [current_epoch s..<nat (epochs s)] \<and> test_due e (current_epoch s)"
    by blast
  then show ?thesis
    using plot_stats_fields(7) [OF plot] by (intro exI [of _ out]) (auto simp: test_due_def)
qed

theorem test_pass_at_multiples_of_ten_witness:
  "run toy_env (toy_experiment 12 False) = Inr (toy_run 12 False) \<and>
   (\<exists>out. console (toy_run 12 False) = console (toy_experiment 12 False) @ out \<and>
     (\<forall>e. Running_test e \<in> set out \<longleftrightarrow>
        current_epoch (toy_experiment 12 False) \<le> e \<and>
        e < nat (epochs (toy_experiment 12 False)) \<and> e mod 10 = 0 \<and>
        e \<noteq> current_epoch (toy_experiment 12 False)))"
proof -
  have "\<not> isl (run toy_env (toy_experiment 12 False))" by code_simp
  then have h: "run toy_env (toy_experiment 12 False) = Inr (toy_run 12 False)"
    by (rule toy_run_returned)
  show ?thesis using test_pass_at_multiples_of_ten [OF h] h by blast
qed

text \<open>
  C9 as stated fails: the interval cannot be set. The configuration has no entry for it,
  and in a fresh run of 12 epochs the test pass is made at epoch 10 and not at epoch 5,
  which an interval of 5 would ask for.
\<close>

theorem test_interval_is_not_configurable:
  "run toy_env (toy_experiment 12 False) = Inr (toy_run 12 False) \<and>
   current_epoch (toy_experiment 12 False) = 0 \<and>
   Running_test 10 \<in> set (console (toy_run 12 False)) \<and>
   Running_test 5 \<notin> set (console (toy_run 12 False)) \<and>
   test_due 5 0 = False"
proof -
  have "\<not> isl (run toy_env (toy_experiment 12 False))" by code_simp
  then have "run toy_env (toy_experiment 12 False) = Inr (toy_run 12 False)"
    by (rule toy_run_returned)
  moreover have "current_epoch (toy_experiment 12 False) = 0 \<and>
   Running_test 10 \<in> set (console (toy_run 12 False)) \<and>
   Running_test 5 \<notin> set (console (toy_run 12 False)) \<and> test_due 5 0 = False"
    by code_simp
  ultimately show ?thesis by simp
qed

end
